theory Spec2Isabelle
  imports Complex_Main
begin

section \<open>The object mapping core of pynwb.form.build.map\<close>

text \<open>
  A shallow embedding of the parts of \<^verbatim>\<open>src/pynwb/form/build/map.py\<close> that
  the specification makes claims about. Python exceptions are values of the
  type \<open>error\<close>; a function that may raise returns \<open>error + 'a\<close> with
  \<open>Inl\<close> for the exception.
\<close>

datatype error =
    ValueError string
  | TypeError string
  | UnboundLocalError string
  | AttributeError string
  | IndexError
  | KeyError
  | LibraryError string
  | Exception string error

subsection \<open>Python values\<close>

text \<open>
  The scalar classes of numpy that the code can meet, and a numpy dtype as far as the
  code reads it: its scalar class (\<^verbatim>\<open>.type\<close>), \<^verbatim>\<open>.itemsize\<close> and \<^verbatim>\<open>.name\<close>.
\<close>

datatype nptype =
    Float16 | Float32 | Float64
  | Int8 | Int16 | Int32 | Int64
  | UInt8 | UInt16 | UInt32 | UInt64
  | NpBool | Complex64 | Complex128
  | NpStr | NpBytes | NpObject

record npdtype =
  dt_type :: nptype
  itemsize :: nat
  dt_name :: string

text \<open>\<^verbatim>\<open>np.dtype(cls)\<close> for a scalar class (the flexible classes have item size 0).\<close>

fun np_dtype :: "nptype \<Rightarrow> npdtype" where
  "np_dtype Float16 = \<lparr>dt_type = Float16, itemsize = 2, dt_name = ''float16''\<rparr>"
| "np_dtype Float32 = \<lparr>dt_type = Float32, itemsize = 4, dt_name = ''float32''\<rparr>"
| "np_dtype Float64 = \<lparr>dt_type = Float64, itemsize = 8, dt_name = ''float64''\<rparr>"
| "np_dtype Int8 = \<lparr>dt_type = Int8, itemsize = 1, dt_name = ''int8''\<rparr>"
| "np_dtype Int16 = \<lparr>dt_type = Int16, itemsize = 2, dt_name = ''int16''\<rparr>"
| "np_dtype Int32 = \<lparr>dt_type = Int32, itemsize = 4, dt_name = ''int32''\<rparr>"
| "np_dtype Int64 = \<lparr>dt_type = Int64, itemsize = 8, dt_name = ''int64''\<rparr>"
| "np_dtype UInt8 = \<lparr>dt_type = UInt8, itemsize = 1, dt_name = ''uint8''\<rparr>"
| "np_dtype UInt16 = \<lparr>dt_type = UInt16, itemsize = 2, dt_name = ''uint16''\<rparr>"
| "np_dtype UInt32 = \<lparr>dt_type = UInt32, itemsize = 4, dt_name = ''uint32''\<rparr>"
| "np_dtype UInt64 = \<lparr>dt_type = UInt64, itemsize = 8, dt_name = ''uint64''\<rparr>"
| "np_dtype NpBool = \<lparr>dt_type = NpBool, itemsize = 1, dt_name = ''bool''\<rparr>"
| "np_dtype Complex64 = \<lparr>dt_type = Complex64, itemsize = 8, dt_name = ''complex64''\<rparr>"
| "np_dtype Complex128 = \<lparr>dt_type = Complex128, itemsize = 16, dt_name = ''complex128''\<rparr>"
| "np_dtype NpStr = \<lparr>dt_type = NpStr, itemsize = 0, dt_name = ''str''\<rparr>"
| "np_dtype NpBytes = \<lparr>dt_type = NpBytes, itemsize = 0, dt_name = ''bytes''\<rparr>"
| "np_dtype NpObject = \<lparr>dt_type = NpObject, itemsize = 8, dt_name = ''object''\<rparr>"

text \<open>
  Python values. A Container and a builder are objects with identity and mutable
  state: the value is the object's address in the store defined below. An n-dimensional
  array carries its dtype and its elements along the first axis. \<open>VNpScalar t v\<close> is
  a numpy scalar of class \<open>t\<close>. \<open>VOther c\<close> is an object of any other class \<open>c\<close>.
\<close>

datatype pyval =
    VNone
  | VBool bool
  | VInt int
  | VFloat real
  | VStr string
  | VBytes string
  | VList "pyval list"
  | VTuple "pyval list"
  | VDict "(string \<times> pyval) list"
  | VNdarray npdtype "pyval list"
  | VNpScalar nptype pyval
  | VDataIO pyval
  | VContainer nat
  | VReferenceBuilder nat
  | VOther string

text \<open>
  What the code calls in numpy and in Python's codecs is not code of this repository:
  the calls are parameters of the model, each returning the result or the exception
  the library raises. \<open>np_scalar t v\<close> is \<^verbatim>\<open>t(v)\<close> for a numpy scalar class \<open>t\<close>,
  \<open>astype\<close> is \<^verbatim>\<open>ndarray.astype\<close> for a scalar class and \<open>astype_flex\<close> for the
  codes \<^verbatim>\<open>'U'\<close> and \<^verbatim>\<open>'S'\<close>; \<open>decode_utf8\<close> is \<^verbatim>\<open>bytes.decode('utf-8')\<close> and
  \<open>encode_ascii\<close> is \<^verbatim>\<open>str.encode('ascii', 'backslashreplace')\<close>; \<open>text_type\<close>
  and \<open>binary_type\<close> are the constructors \<^verbatim>\<open>str\<close> and \<^verbatim>\<open>bytes\<close>, and \<open>isoformat\<close>
  is \<^verbatim>\<open>datetime.isoformat\<close>.
\<close>

record pylib =
  np_scalar :: "nptype \<Rightarrow> pyval \<Rightarrow> error + pyval"
  astype :: "nptype \<Rightarrow> pyval \<Rightarrow> error + pyval"
  astype_flex :: "string \<Rightarrow> pyval \<Rightarrow> error + pyval"
  decode_utf8 :: "string \<Rightarrow> error + string"
  encode_ascii :: "string \<Rightarrow> string"
  text_type :: "pyval \<Rightarrow> error + pyval"
  binary_type :: "pyval \<Rightarrow> error + pyval"
  isoformat :: "pyval \<Rightarrow> error + pyval"

subsection \<open>Specifications\<close>

text \<open>
  The specification classes live in the spec layer; the mapper reads the fields below.
  A dtype is absent, a name, a RefSpec or a compound list of named dtypes.
\<close>

datatype sdtype =
    DtNone
  | DtName string
  | DtRef (target_type: string) (reftype: string)
  | DtCompound "(string \<times> sdtype) list"

datatype spec_kind = AttributeSpec | DatasetSpec | GroupSpec | LinkSpec

datatype spec = Spec
  (kind: spec_kind)
  (name: "string option")
  (data_type_def: "string option")
  (data_type_inc: "string option")
  (is_many: bool)
  (dtype: sdtype)
  (required: bool)
  (svalue: pyval)
  (default_value: pyval)
  (shape: "nat list option")
  (dims: "string list option")
  (attributes: "spec list")
  (datasets: "spec list")
  (groups: "spec list")
  (links: "spec list")

subsection \<open>Dtype conversion\<close>

text \<open>\<^verbatim>\<open>_unicode\<close> and \<^verbatim>\<open>_ascii\<close>.\<close>

definition unicode :: "pylib \<Rightarrow> pyval \<Rightarrow> error + pyval" where
  "unicode L s =
     (case s of
        VStr t \<Rightarrow> Inr (VStr t)
      | VBytes b \<Rightarrow> (case decode_utf8 L b of Inl e \<Rightarrow> Inl e | Inr t \<Rightarrow> Inr (VStr t))
      | _ \<Rightarrow> Inl (ValueError ''Expected unicode or ascii string''))"

definition ascii :: "pylib \<Rightarrow> pyval \<Rightarrow> error + pyval" where
  "ascii L s =
     (case s of
        VStr t \<Rightarrow> Inr (VBytes (encode_ascii L t))
      | VBytes b \<Rightarrow> Inr (VBytes b)
      | _ \<Rightarrow> Inl (ValueError ''Expected unicode or ascii string''))"

text \<open>The class table \<^verbatim>\<open>ObjectMapper.__dtypes\<close>.\<close>

datatype conv = NpType nptype | Unicode | Ascii

definition dtypes :: "(string \<times> conv) list" where
  "dtypes =
    [(''float'', NpType Float32),
     (''float32'', NpType Float32),
     (''double'', NpType Float64),
     (''float64'', NpType Float64),
     (''long'', NpType Int64),
     (''int64'', NpType Int64),
     (''uint64'', NpType UInt64),
     (''int'', NpType Int32),
     (''int32'', NpType Int32),
     (''int16'', NpType Int16),
     (''int8'', NpType Int8),
     (''bool'', NpType NpBool),
     (''text'', Unicode),
     (''utf'', Unicode),
     (''utf8'', Unicode),
     (''utf-8'', Unicode),
     (''ascii'', Ascii),
     (''str'', Ascii),
     (''isodatetime'', Ascii),
     (''uint32'', NpType UInt32),
     (''uint16'', NpType UInt16),
     (''uint8'', NpType UInt8)]"

text \<open>
  \<^verbatim>\<open>__resolve_dtype\<close>: \<open>given\<close> is the dtype of the value, \<open>specified\<close> the class
  from the table. The size comparison comes first; the families are compared only
  when the given dtype is wider.
\<close>

definition resolve_dtype :: "npdtype \<Rightarrow> nptype \<Rightarrow> error + nptype" where
  "resolve_dtype g specified =
     (let s = np_dtype specified in
      if itemsize g \<le> itemsize s then Inr (dt_type s)
      else if take 3 (dt_name g) \<noteq> take 3 (dt_name s) then
        (if itemsize s < 8
         then Inl (ValueError (''expected '' @ dt_name s @ '', received '' @ dt_name g
                     @ '' - must supply '' @ dt_name s @ '' or higher precision''))
         else Inl (ValueError (''expected '' @ dt_name s @ '', received '' @ dt_name g
                     @ '' - must supply '' @ dt_name s)))
      else Inr (dt_type g))"

text \<open>
  \<^verbatim>\<open>np.dtype(type(value))\<close> for a value of the scalar branch. A Python int is a C
  long (8 bytes on the 64-bit Unix platforms), a float is a double; a class numpy does
  not know is the object dtype.
\<close>

fun type_dtype :: "pyval \<Rightarrow> npdtype" where
  "type_dtype (VBool _) = np_dtype NpBool"
| "type_dtype (VInt _) = np_dtype Int64"
| "type_dtype (VFloat _) = np_dtype Float64"
| "type_dtype (VStr _) = np_dtype NpStr"
| "type_dtype (VBytes _) = np_dtype NpBytes"
| "type_dtype (VNpScalar t _) = np_dtype t"
| "type_dtype _ = np_dtype NpObject"

text \<open>The dtype a conversion reports next to the value.\<close>

datatype rdtype = RNone | RName string | RCompound "(string \<times> sdtype) list" | RType nptype

text \<open>The value of \<^verbatim>\<open>dt\<close> that is returned for an absent value.\<close>

fun absent_dtype :: "sdtype \<Rightarrow> rdtype" where
  "absent_dtype DtNone = RNone"
| "absent_dtype (DtName n) = RName n"
| "absent_dtype (DtRef tt rt) = RName rt"
| "absent_dtype (DtCompound fs) = RCompound fs"

text \<open>
  The three checks of \<^verbatim>\<open>spec.dtype\<close> before the table is read: an absent dtype
  and \<^verbatim>\<open>'numeric'\<close> pass the value through, a name outside the table is an error.
  A RefSpec or a compound list is no key of the table; Python raises at the
  membership test.
\<close>

datatype dtype_check = PassThrough | Fails error | Found conv

fun check_dtype :: "sdtype \<Rightarrow> dtype_check" where
  "check_dtype DtNone = PassThrough"
| "check_dtype (DtName n) =
     (if n = ''numeric'' then PassThrough
      else case map_of dtypes n of
             None \<Rightarrow> Fails (ValueError (''unrecognized dtype: '' @ n @ '' -- cannot convert value''))
           | Some c \<Rightarrow> Found c)"
| "check_dtype (DtRef tt rt) = Fails (TypeError ''unhashable type'')"
| "check_dtype (DtCompound fs) = Fails (TypeError ''unhashable type'')"

text \<open>The scalar branch (the final \<^verbatim>\<open>else\<close>) of \<^verbatim>\<open>convert_dtype\<close>.\<close>

definition convert_scalar :: "pylib \<Rightarrow> conv \<Rightarrow> pyval \<Rightarrow> error + (pyval \<times> rdtype)" where
  "convert_scalar L spec_dtype v =
     (case spec_dtype of
        Unicode \<Rightarrow> (case unicode L v of Inl e \<Rightarrow> Inl e | Inr r \<Rightarrow> Inr (r, RName ''utf8''))
      | Ascii \<Rightarrow> (case ascii L v of Inl e \<Rightarrow> Inl e | Inr r \<Rightarrow> Inr (r, RName ''ascii''))
      | NpType t \<Rightarrow>
          (case resolve_dtype (type_dtype v) t of
             Inl e \<Rightarrow> Inl e
           | Inr dtype_func \<Rightarrow>
               (case np_scalar L dtype_func v of
                  Inl e \<Rightarrow> Inl e
                | Inr r \<Rightarrow> Inr (r, RType dtype_func))))"

text \<open>The array branch.\<close>

definition convert_ndarray :: "pylib \<Rightarrow> conv \<Rightarrow> npdtype \<Rightarrow> pyval \<Rightarrow> error + (pyval \<times> rdtype)" where
  "convert_ndarray L spec_dtype vdtype v =
     (case spec_dtype of
        Unicode \<Rightarrow> (case astype_flex L ''U'' v of Inl e \<Rightarrow> Inl e | Inr r \<Rightarrow> Inr (r, RName ''utf8''))
      | Ascii \<Rightarrow> (case astype_flex L ''S'' v of Inl e \<Rightarrow> Inl e | Inr r \<Rightarrow> Inr (r, RName ''ascii''))
      | NpType t \<Rightarrow>
          (case resolve_dtype vdtype t of
             Inl e \<Rightarrow> Inl e
           | Inr dtype_func \<Rightarrow>
               (case astype L dtype_func v of
                  Inl e \<Rightarrow> Inl e
                | Inr r \<Rightarrow> Inr (r, RType dtype_func))))"

text \<open>
  \<^verbatim>\<open>convert_dtype\<close>. The loop over a list or tuple is \<open>convert_elems\<close>: its state is
  the list \<^verbatim>\<open>ret\<close> and the local \<^verbatim>\<open>tmp_dtype\<close>, which is unbound (\<open>None\<close>) until
  the first element has been converted. Reading it unbound after the loop raises.
\<close>

fun convert_dtype :: "pylib \<Rightarrow> spec \<Rightarrow> pyval \<Rightarrow> error + (pyval \<times> rdtype)"
and convert_elems :: "pylib \<Rightarrow> spec \<Rightarrow> pyval list \<Rightarrow> pyval list \<Rightarrow> rdtype option
                        \<Rightarrow> error + (pyval list \<times> rdtype option)" where
  "convert_dtype L spec VNone = Inr (VNone, absent_dtype (dtype spec))"
| "convert_dtype L spec (VDataIO d) =
     (case convert_dtype L spec d of
        Inl e \<Rightarrow> Inl e
      | Inr r \<Rightarrow> Inr (VDataIO d, snd r))"
| "convert_dtype L spec (VNdarray dt xs) =
     (case check_dtype (dtype spec) of
        PassThrough \<Rightarrow> Inr (VNdarray dt xs, RNone)
      | Fails e \<Rightarrow> Inl e
      | Found spec_dtype \<Rightarrow> convert_ndarray L spec_dtype dt (VNdarray dt xs))"
| "convert_dtype L spec (VList xs) =
     (case check_dtype (dtype spec) of
        PassThrough \<Rightarrow> Inr (VList xs, RNone)
      | Fails e \<Rightarrow> Inl e
      | Found spec_dtype \<Rightarrow>
          (case convert_elems L spec xs [] None of
             Inl e \<Rightarrow> Inl e
           | Inr (ret, tmp_dtype) \<Rightarrow>
               (case tmp_dtype of
                  None \<Rightarrow> Inl (UnboundLocalError ''tmp_dtype'')
                | Some ret_dtype \<Rightarrow> Inr (VList ret, ret_dtype))))"
| "convert_dtype L spec (VTuple xs) =
     (case check_dtype (dtype spec) of
        PassThrough \<Rightarrow> Inr (VTuple xs, RNone)
      | Fails e \<Rightarrow> Inl e
      | Found spec_dtype \<Rightarrow>
          (case convert_elems L spec xs [] None of
             Inl e \<Rightarrow> Inl e
           | Inr (ret, tmp_dtype) \<Rightarrow>
               (case tmp_dtype of
                  None \<Rightarrow> Inl (UnboundLocalError ''tmp_dtype'')
                | Some ret_dtype \<Rightarrow> Inr (VTuple ret, ret_dtype))))"
| "convert_dtype L spec v =
     (case check_dtype (dtype spec) of
        PassThrough \<Rightarrow> Inr (v, RNone)
      | Fails e \<Rightarrow> Inl e
      | Found spec_dtype \<Rightarrow> convert_scalar L spec_dtype v)"
| "convert_elems L spec [] ret tmp_dtype = Inr (ret, tmp_dtype)"
| "convert_elems L spec (elem # rest) ret tmp_dtype =
     (case convert_dtype L spec elem of
        Inl e \<Rightarrow> Inl e
      | Inr (tmp, d) \<Rightarrow> convert_elems L spec rest (ret @ [tmp]) (Some d))"

subsection \<open>The four mapping tables of an ObjectMapper\<close>

text \<open>
  \<^verbatim>\<open>ObjectMapper.__init__\<close> creates four dictionaries. The type of specification
  objects, which are the keys of two of them, is left open here (\<open>'s\<close>).
\<close>

record 's mapper_tables =
  spec2attr :: "'s \<rightharpoonup> string"
  attr2spec :: "string \<rightharpoonup> 's"
  spec2carg :: "'s \<rightharpoonup> string"
  carg2spec :: "string \<rightharpoonup> 's"

definition empty_tables :: "'s mapper_tables" where
  "empty_tables =
     \<lparr>spec2attr = Map.empty, attr2spec = Map.empty,
      spec2carg = Map.empty, carg2spec = Map.empty\<rparr>"

text \<open>\<^verbatim>\<open>map_attr\<close>: the local \<^verbatim>\<open>n\<close> the source computes is never used.\<close>

definition map_attr :: "string \<Rightarrow> 's \<Rightarrow> 's mapper_tables \<Rightarrow> 's mapper_tables" where
  "map_attr attr_name spec m =
     m\<lparr>spec2attr := (spec2attr m)(spec \<mapsto> attr_name),
       attr2spec := (attr2spec m)(attr_name \<mapsto> spec)\<rparr>"

definition get_attr_spec :: "'s mapper_tables \<Rightarrow> string \<Rightarrow> 's option" where
  "get_attr_spec m attr_name = attr2spec m attr_name"

text \<open>\<^verbatim>\<open>get_carg_spec\<close> reads \<^verbatim>\<open>self.__attr2spec\<close>, as the source does.\<close>

definition get_carg_spec :: "'s mapper_tables \<Rightarrow> string \<Rightarrow> 's option" where
  "get_carg_spec m carg_name = attr2spec m carg_name"

definition map_const_arg :: "string \<Rightarrow> 's \<Rightarrow> 's mapper_tables \<Rightarrow> 's mapper_tables" where
  "map_const_arg const_arg spec m =
     m\<lparr>spec2carg := (spec2carg m)(spec \<mapsto> const_arg),
       carg2spec := (carg2spec m)(const_arg \<mapsto> spec)\<rparr>"

definition unmap :: "'s \<Rightarrow> 's mapper_tables \<Rightarrow> 's mapper_tables" where
  "unmap spec m =
     m\<lparr>spec2attr := (spec2attr m)(spec := None),
       spec2carg := (spec2carg m)(spec := None)\<rparr>"

definition map_spec :: "string \<Rightarrow> 's \<Rightarrow> 's mapper_tables \<Rightarrow> 's mapper_tables" where
  "map_spec attr_carg spec m = map_attr attr_carg spec (map_const_arg attr_carg spec m)"


definition get_const_arg :: "'s mapper_tables \<Rightarrow> 's \<Rightarrow> string option" where
  "get_const_arg m spec = spec2carg m spec"

subsection \<open>Containers, builders and the object store\<close>

text \<open>
  Containers and builders are Python objects: they have an identity, they are mutated
  in place, and the code compares them with \<^verbatim>\<open>is\<close>. An object is therefore an
  address (a natural number, what \<^verbatim>\<open>id\<close> returns) and its fields live in a store.

  A Proxy stands for a Container by source, location, namespace and data type, and
  collects candidate Containers.
\<close>

record proxy =
  p_source :: "string option"
  p_location :: string
  p_namespace :: "string option"
  p_data_type :: "string option"
  p_candidates :: "nat list"

text \<open>The parent of a Container: none, another Container, or a Proxy.\<close>

datatype parent_ref = NoParent | ParentContainer nat | ParentProxy proxy

text \<open>
  The Container contract the mapper relies on. \<open>cclass\<close> is the class of the object,
  \<open>type_attr\<close> what \<^verbatim>\<open>getattr(container, type_key)\<close> reads (absent when no class of
  the object carries the attribute), \<open>cattrs\<close> the other attributes by name.
\<close>

record container =
  cclass :: string
  cname :: "string option"
  cparent :: parent_ref
  container_source :: "string option"
  modified :: bool
  type_attr :: "string option"
  cattrs :: "string \<rightharpoonup> pyval"

text \<open>
  Modelled from the spec: the builder classes are not part of the mapper's source
  file. A GroupBuilder has a name, a source, and maps of attributes, datasets,
  groups and links by name; a DatasetBuilder has a name, a dtype and attributes.
  \<^verbatim>\<open>set_attribute(name, value)\<close> stores \<open>value\<close> under \<open>name\<close>, \<^verbatim>\<open>set_group\<close> and
  \<^verbatim>\<open>set_dataset\<close> store a builder under its name, \<^verbatim>\<open>set_link\<close> stores a LinkBuilder
  under the name it was constructed with.
\<close>

datatype builder_class = GroupBuilder | DatasetBuilder

record link_builder =
  l_builder :: nat
  l_name :: "string option"
  l_parent :: nat

record builder =
  b_class :: builder_class
  b_name :: string
  b_source :: "string option"
  b_dtype :: rdtype
  b_attributes :: "string \<rightharpoonup> pyval"
  b_datasets :: "string \<rightharpoonup> nat"
  b_groups :: "string \<rightharpoonup> nat"
  b_links :: "string option \<rightharpoonup> link_builder"

datatype warning =
    OrphanContainerWarning "string option" string string "string option"
  | MissingRequiredWarning "string option" string "string option"

text \<open>
  An ObjectMapper instance: its class, its specification and its four tables.
\<close>

record mapper =
  m_class :: string
  m_spec :: spec
  m_tables :: "spec mapper_tables"

text \<open>
  The state a build runs in: the Containers and builders by address, the warnings
  emitted so far (\<^verbatim>\<open>warnings.warn\<close>), the two identity-keyed caches of the
  BuildManager, and the ObjectMapper instances the TypeMap has memoized by Container
  class.
\<close>

record world =
  conts :: "nat \<Rightarrow> container"
  bldrs :: "nat \<Rightarrow> builder"
  warnings :: "warning list"
  builders :: "nat \<rightharpoonup> nat"
  containers :: "nat \<rightharpoonup> nat"
  mappers :: "string \<rightharpoonup> mapper"

text \<open>
  Modelled from the spec: the mutators of a builder (\<^verbatim>\<open>set_attribute\<close>,
  \<^verbatim>\<open>set_group\<close>, \<^verbatim>\<open>set_dataset\<close>, \<^verbatim>\<open>set_link\<close>), which are missing from the
  mapper's source file, as updates of the builder at address \<open>b\<close> in the store.
\<close>

definition set_attribute :: "nat \<Rightarrow> string \<Rightarrow> pyval \<Rightarrow> world \<Rightarrow> world" where
  "set_attribute b n v w =
     w\<lparr>bldrs := (bldrs w)(b := (bldrs w b)\<lparr>b_attributes := (b_attributes (bldrs w b))(n \<mapsto> v)\<rparr>)\<rparr>"

definition set_group :: "nat \<Rightarrow> nat \<Rightarrow> world \<Rightarrow> world" where
  "set_group b g w =
     w\<lparr>bldrs := (bldrs w)(b := (bldrs w b)\<lparr>b_groups := (b_groups (bldrs w b))(b_name (bldrs w g) \<mapsto> g)\<rparr>)\<rparr>"

definition set_dataset :: "nat \<Rightarrow> nat \<Rightarrow> world \<Rightarrow> world" where
  "set_dataset b d w =
     w\<lparr>bldrs := (bldrs w)(b := (bldrs w b)\<lparr>b_datasets := (b_datasets (bldrs w b))(b_name (bldrs w d) \<mapsto> d)\<rparr>)\<rparr>"

definition set_link :: "nat \<Rightarrow> link_builder \<Rightarrow> world \<Rightarrow> world" where
  "set_link b l w =
     w\<lparr>bldrs := (bldrs w)(b := (bldrs w b)\<lparr>b_links := (b_links (bldrs w b))(l_name l \<mapsto> l)\<rparr>)\<rparr>"

definition warn :: "warning \<Rightarrow> world \<Rightarrow> world" where
  "warn x w = w\<lparr>warnings := warnings w @ [x]\<rparr>"

subsection \<open>BuildManager\<close>

text \<open>
  \<^verbatim>\<open>TypeMap.build\<close>, as the manager calls it: the Container, the source, the builder
  to build on (if any) and the state; it returns the builder or raises. It calls back
  into the manager for every child, so it receives and returns the whole state. The
  manager's build takes it as an argument, and what is proved about the manager's
  build holds whatever this call does.
\<close>

type_synonym type_map_build =
  "nat \<Rightarrow> string option \<Rightarrow> nat option \<Rightarrow> world \<Rightarrow> error + (nat \<times> world)"

text \<open>\<^verbatim>\<open>BuildManager.prebuilt\<close>.\<close>

definition prebuilt :: "nat \<Rightarrow> nat \<Rightarrow> world \<Rightarrow> world" where
  "prebuilt container builder w =
     w\<lparr>builders := (builders w)(container \<mapsto> builder),
       containers := (containers w)(builder \<mapsto> container)\<rparr>"

text \<open>\<^verbatim>\<open>BuildManager.build\<close>.\<close>

definition BuildManager_build ::
  "type_map_build \<Rightarrow> nat \<Rightarrow> string option \<Rightarrow> world \<Rightarrow> error + (nat \<times> world)" where
  "BuildManager_build type_map_build container source w =
     (case builders w container of
        None \<Rightarrow>
          (case (if container_source (conts w container) = None
                 then Inr (w\<lparr>conts := (conts w)
                             (container := (conts w container)\<lparr>container_source := source\<rparr>)\<rparr>)
                 else if container_source (conts w container) \<noteq> source
                 then Inl (ValueError ''Can't change container_source once set'')
                 else Inr w) of
             Inl e \<Rightarrow> Inl e
           | Inr w1 \<Rightarrow>
               (case type_map_build container source None w1 of
                  Inl e \<Rightarrow> Inl e
                | Inr (result, w2) \<Rightarrow> Inr (result, prebuilt container result w2)))
      | Some result \<Rightarrow>
          (if modified (conts w container) then
             (if b_class (bldrs w result) = GroupBuilder
              then type_map_build container source (Some result) w
              else Inr (result, w))
           else Inr (result, w)))"

subsection \<open>TypeMap\<close>

text \<open>
  The registry of a TypeMap as a build reads it. \<open>data_types\<close> is the table
  \<^verbatim>\<open>__data_types\<close> from a Container class to its namespace and data type, and
  \<open>mapper_cls\<close> the table \<^verbatim>\<open>__mapper_cls\<close>. The rest is consumed from outside the
  mapper's source file and is a parameter: \<open>get_spec\<close> is the catalog's lookup,
  \<open>mro\<close> gives the ancestor chain of a class, \<open>new_mapper c s\<close> calls the mapper
  class \<open>c\<close> on the specification \<open>s\<close>.

  Modelled from the spec: \<open>type_key\<close> is the fixed key provided by the spec layer,
  the name of the attribute that carries the data type (for example
  \<^verbatim>\<open>neurodata_type\<close>).
\<close>

record type_map =
  data_types :: "string \<rightharpoonup> string \<times> string"
  mapper_cls :: "string \<rightharpoonup> string"
  default_mapper_cls :: string
  type_key :: string
  get_spec :: "string \<Rightarrow> string \<Rightarrow> error + spec"
  mro :: "string \<Rightarrow> string list"
  new_mapper :: "string \<Rightarrow> spec \<Rightarrow> error + mapper"

text \<open>\<^verbatim>\<open>get_container_ns_dt\<close>: the default of the lookup is the pair of two Nones.\<close>

definition get_container_ns_dt :: "type_map \<Rightarrow> world \<Rightarrow> nat \<Rightarrow> string option \<times> string option" where
  "get_container_ns_dt tm w obj =
     (case data_types tm (cclass (conts w obj)) of
        None \<Rightarrow> (None, None)
      | Some (namespace, data_type) \<Rightarrow> (Some namespace, Some data_type))"

text \<open>The loop of \<^verbatim>\<open>get_map\<close> over the ancestor chain of the Container class.\<close>

fun find_mapper_cls :: "(string \<rightharpoonup> string) \<Rightarrow> string list \<Rightarrow> string \<Rightarrow> string" where
  "find_mapper_cls tbl [] default_cls = default_cls"
| "find_mapper_cls tbl (cls # rest) default_cls =
     (case tbl cls of
        Some tmp_mapper_cls \<Rightarrow> tmp_mapper_cls
      | None \<Rightarrow> find_mapper_cls tbl rest default_cls)"

text \<open>
  \<^verbatim>\<open>TypeMap.get_map\<close> for a Container. The namespace that \<^verbatim>\<open>get_container_ns_dt\<close>
  returns is None exactly when the class has no entry in \<open>data_types\<close>.
\<close>

definition get_map :: "type_map \<Rightarrow> nat \<Rightarrow> world \<Rightarrow> error + (mapper \<times> world)" where
  "get_map tm obj w =
     (let container_cls = cclass (conts w obj) in
      case data_types tm container_cls of
        None \<Rightarrow> Inl (ValueError ''class is not mapped to a data_type'')
      | Some (namespace, data_type) \<Rightarrow>
          (case get_spec tm namespace data_type of
             Inl e \<Rightarrow> Inl e
           | Inr spec \<Rightarrow>
               (case mappers w container_cls of
                  Some mapper \<Rightarrow> Inr (mapper, w)
                | None \<Rightarrow>
                    (case new_mapper tm
                            (find_mapper_cls (mapper_cls tm) (mro tm container_cls)
                               (default_mapper_cls tm)) spec of
                       Inl e \<Rightarrow> Inl e
                     | Inr mapper \<Rightarrow>
                         Inr (mapper, w\<lparr>mappers := (mappers w)(container_cls \<mapsto> mapper)\<rparr>)))))"

text \<open>
  \<^verbatim>\<open>ObjectMapper.build\<close>, as \<^verbatim>\<open>TypeMap.build\<close> calls it: the mapper, the Container, the
  builder to build on (if any), the source and the state. It walks the whole
  specification and builds every child through the manager; here it is an argument of
  \<^verbatim>\<open>TypeMap.build\<close>, and what is proved about \<^verbatim>\<open>TypeMap.build\<close> holds whatever it does.
\<close>

type_synonym mapper_build =
  "mapper \<Rightarrow> nat \<Rightarrow> nat option \<Rightarrow> string option \<Rightarrow> world \<Rightarrow> error + (nat \<times> world)"

definition py_str :: "string option \<Rightarrow> pyval" where
  "py_str x = (case x of None \<Rightarrow> VNone | Some s \<Rightarrow> VStr s)"

text \<open>
  \<^verbatim>\<open>TypeMap.build\<close>. Without a manager a new BuildManager is created, whose caches are
  empty. \<^verbatim>\<open>get_map\<close> never returns None, so the test for it is not a branch.
\<close>

definition TypeMap_build ::
  "type_map \<Rightarrow> mapper_build \<Rightarrow> bool \<Rightarrow> nat \<Rightarrow> string option \<Rightarrow> nat option \<Rightarrow> world
     \<Rightarrow> error + (nat \<times> world)" where
  "TypeMap_build tm ObjectMapper_build manager_given container source builder w =
     (let w0 = (if manager_given then w
                else w\<lparr>builders := Map.empty, containers := Map.empty\<rparr>) in
      case get_map tm container w0 of
        Inl e \<Rightarrow> Inl e
      | Inr (attr_map, w1) \<Rightarrow>
          (case ObjectMapper_build attr_map container builder source w1 of
             Inl e \<Rightarrow> Inl e
           | Inr (b, w2) \<Rightarrow>
               (case get_container_ns_dt tm w2 container of
                  (namespace, data_type) \<Rightarrow>
                    Inr (b, set_attribute b (type_key tm) (py_str data_type)
                              (set_attribute b ''namespace'' (py_str namespace) w2)))))"

subsection \<open>Proxy\<close>

text \<open>
  The loop of \<^verbatim>\<open>__get_proxy_container\<close> that collects the names along the parent
  chain. The chain lives in the store and may be cyclic, in which case the loop does
  not return: the result is then \<open>None\<close>.
\<close>

partial_function (option) name_stack ::
  "world \<Rightarrow> parent_ref \<Rightarrow> string option list \<Rightarrow> string option list option" where
  "name_stack w tmp stack =
     (case tmp of
        NoParent \<Rightarrow> Some stack
      | ParentProxy p \<Rightarrow> Some (stack @ [Some (p_location p)])
      | ParentContainer a \<Rightarrow> name_stack w (cparent (conts w a)) (stack @ [cname (conts w a)]))"

text \<open>\<^verbatim>\<open>sep.join(names)\<close>; a name that is None is a TypeError.\<close>

fun join :: "string \<Rightarrow> string option list \<Rightarrow> error + string" where
  "join sep [] = Inr []"
| "join sep [None] = Inl (TypeError ''sequence item: expected str instance, NoneType found'')"
| "join sep [Some x] = Inr x"
| "join sep (None # xs) = Inl (TypeError ''sequence item: expected str instance, NoneType found'')"
| "join sep (Some x # xs) =
     (case join sep xs of Inl e \<Rightarrow> Inl e | Inr r \<Rightarrow> Inr (x @ sep @ r))"

definition get_proxy_container :: "type_map \<Rightarrow> world \<Rightarrow> nat \<Rightarrow> (error + proxy) option" where
  "get_proxy_container tm w container =
     (case name_stack w (ParentContainer container) [] of
        None \<Rightarrow> None
      | Some stack \<Rightarrow>
          Some (case join ''/'' (rev stack) of
                  Inl e \<Rightarrow> Inl e
                | Inr loc \<Rightarrow>
                    Inr \<lparr>p_source = container_source (conts w container),
                         p_location = loc,
                         p_namespace = fst (get_container_ns_dt tm w container),
                         p_data_type = snd (get_container_ns_dt tm w container),
                         p_candidates = []\<rparr>))"

text \<open>\<^verbatim>\<open>Proxy.__eq__\<close>.\<close>

definition proxy_eq :: "proxy \<Rightarrow> proxy \<Rightarrow> bool" where
  "proxy_eq self other \<longleftrightarrow>
     p_data_type self = p_data_type other \<and>
     p_location self = p_location other \<and>
     p_namespace self = p_namespace other \<and>
     p_source self = p_source other"

text \<open>\<^verbatim>\<open>Proxy.matches\<close> for a Container: the manager makes the Container's proxy.\<close>

definition matches :: "type_map \<Rightarrow> world \<Rightarrow> proxy \<Rightarrow> nat \<Rightarrow> (error + bool) option" where
  "matches tm w self obj =
     (case get_proxy_container tm w obj of
        None \<Rightarrow> None
      | Some (Inl e) \<Rightarrow> Some (Inl e)
      | Some (Inr other) \<Rightarrow> Some (Inr (proxy_eq self other)))"

text \<open>\<^verbatim>\<open>Proxy.resolve\<close>: the loop over the candidates, in the order they were added.\<close>

fun resolve_loop :: "type_map \<Rightarrow> world \<Rightarrow> proxy \<Rightarrow> nat list \<Rightarrow> (error + nat option) option" where
  "resolve_loop tm w self [] = Some (Inr None)"
| "resolve_loop tm w self (candidate # rest) =
     (case matches tm w self candidate of
        None \<Rightarrow> None
      | Some (Inl e) \<Rightarrow> Some (Inl e)
      | Some (Inr True) \<Rightarrow> Some (Inr (Some candidate))
      | Some (Inr False) \<Rightarrow> resolve_loop tm w self rest)"

definition resolve :: "type_map \<Rightarrow> world \<Rightarrow> proxy \<Rightarrow> (error + nat option) option" where
  "resolve tm w self = resolve_loop tm w self (p_candidates self)"

definition add_candidate :: "nat \<Rightarrow> proxy \<Rightarrow> proxy" where
  "add_candidate container self = self\<lparr>p_candidates := p_candidates self @ [container]\<rparr>"

subsection \<open>ObjectMapper: adding child Containers\<close>

text \<open>
  What the methods of one ObjectMapper share during a build: the library, the
  mapper itself, the override functions of its class by attribute name (the table
  \<^verbatim>\<open>obj_attrs\<close>; an override is user code that receives the Container and may build
  other Containers), the type key, and \<^verbatim>\<open>TypeMap.build\<close> as the manager calls it.
\<close>

record build_env =
  lib :: pylib
  self :: mapper
  obj_attrs :: "string \<rightharpoonup> (nat \<Rightarrow> world \<Rightarrow> error + pyval \<times> world)"
  spec_type_key :: string
  tm_build :: type_map_build

text \<open>Truth of a source string: neither None nor empty.\<close>

definition nonempty_source :: "string option \<Rightarrow> bool" where
  "nonempty_source x \<longleftrightarrow> (case x of None \<Rightarrow> False | Some s \<Rightarrow> s \<noteq> [])"

text \<open>
  The test \<^verbatim>\<open>if value.parent is None\<close> with its warning. The message reads the
  attribute of the value that the type key names, which raises when the attribute is
  missing.
\<close>

definition warn_orphan :: "build_env \<Rightarrow> nat \<Rightarrow> nat \<Rightarrow> world \<Rightarrow> error + world" where
  "warn_orphan env builder v w =
     (if cparent (conts w v) = NoParent then
        (case type_attr (conts w v) of
           None \<Rightarrow> Inl (AttributeError (spec_type_key env))
         | Some t \<Rightarrow>
             Inr (warn (OrphanContainerWarning (cname (conts w v)) t (b_name (bldrs w builder))
                          (data_type_def (m_spec (self env)))) w))
      else Inr w)"

text \<open>\<^verbatim>\<open>LinkBuilder(rendered_obj, name, builder)\<close>.\<close>

definition LinkBuilder :: "nat \<Rightarrow> string option \<Rightarrow> nat \<Rightarrow> link_builder" where
  "LinkBuilder target n parent = \<lparr>l_builder = target, l_name = n, l_parent = parent\<rparr>"

text \<open>
  The branch of \<^verbatim>\<open>__add_containers\<close> for a value that is a Container (at address
  \<open>v\<close>). The dtype of a rendered dataset builder is stamped from the specification
  through \<^verbatim>\<open>convert_dtype(spec, None)\<close>.
\<close>

definition add_container ::
  "build_env \<Rightarrow> nat \<Rightarrow> spec \<Rightarrow> nat \<Rightarrow> string option \<Rightarrow> nat \<Rightarrow> world \<Rightarrow> error + world" where
  "add_container env builder spec v source parent_container w =
     (case warn_orphan env builder v w of
        Inl e \<Rightarrow> Inl e
      | Inr w1 \<Rightarrow>
          if modified (conts w1 v) then
            (case BuildManager_build (tm_build env) v source w1 of
               Inl e \<Rightarrow> Inl e
             | Inr (rendered_obj, w2) \<Rightarrow>
                 if kind spec = LinkSpec \<or> cparent (conts w2 v) \<noteq> ParentContainer parent_container
                 then Inr (set_link builder (LinkBuilder rendered_obj (name spec) builder) w2)
                 else if kind spec = DatasetSpec then
                   (if b_dtype (bldrs w2 rendered_obj) = RNone \<and> dtype spec \<noteq> DtNone then
                      (case convert_dtype (lib env) spec VNone of
                         Inl e \<Rightarrow> Inl e
                       | Inr (val, dt) \<Rightarrow>
                           Inr (set_dataset builder rendered_obj
                                  (w2\<lparr>bldrs := (bldrs w2)
                                     (rendered_obj := (bldrs w2 rendered_obj)\<lparr>b_dtype := dt\<rparr>)\<rparr>)))
                    else Inr (set_dataset builder rendered_obj w2))
                 else Inr (set_group builder rendered_obj w2))
          else if nonempty_source (container_source (conts w1 v)) then
            (if container_source (conts w1 v) \<noteq> container_source (conts w1 parent_container)
                \<or> cparent (conts w1 v) \<noteq> ParentContainer parent_container
             then
               (case BuildManager_build (tm_build env) v source w1 of
                  Inl e \<Rightarrow> Inl e
                | Inr (rendered_obj, w2) \<Rightarrow>
                    Inr (set_link builder (LinkBuilder rendered_obj (name spec) builder) w2))
             else Inr w1)
          else Inl (ValueError ''Found unmodified Container with no source''))"

text \<open>
  The truth value of an element of a list of children (\<^verbatim>\<open>if container:\<close>). A
  Container is true (the Container contract has no length); numpy refuses the truth
  value of an array with more than one element.
\<close>

fun truthy :: "pyval \<Rightarrow> error + bool" where
  "truthy VNone = Inr False"
| "truthy (VBool b) = Inr b"
| "truthy (VInt i) = Inr (i \<noteq> 0)"
| "truthy (VFloat x) = Inr (x \<noteq> 0)"
| "truthy (VStr s) = Inr (s \<noteq> [])"
| "truthy (VBytes s) = Inr (s \<noteq> [])"
| "truthy (VList xs) = Inr (xs \<noteq> [])"
| "truthy (VTuple xs) = Inr (xs \<noteq> [])"
| "truthy (VDict kvs) = Inr (kvs \<noteq> [])"
| "truthy (VNdarray d []) = Inr False"
| "truthy (VNdarray d [x]) = truthy x"
| "truthy (VNdarray d (x # y # xs)) =
     Inl (ValueError ''The truth value of an array with more than one element is ambiguous'')"
| "truthy (VNpScalar t v) = truthy v"
| "truthy (VDataIO d) = Inr True"
| "truthy (VContainer a) = Inr True"
| "truthy (VReferenceBuilder a) = Inr True"
| "truthy (VOther c) = Inr True"

text \<open>
  \<^verbatim>\<open>__add_containers\<close>: a Container is added as above, a list, tuple or dict is
  walked and every true element added in turn, anything else is an error.
\<close>

fun add_containers ::
  "build_env \<Rightarrow> nat \<Rightarrow> spec \<Rightarrow> pyval \<Rightarrow> string option \<Rightarrow> nat \<Rightarrow> world \<Rightarrow> error + world"
and add_containers_each ::
  "build_env \<Rightarrow> nat \<Rightarrow> spec \<Rightarrow> pyval list \<Rightarrow> string option \<Rightarrow> nat \<Rightarrow> world \<Rightarrow> error + world"
where
  "add_containers env builder spec (VContainer v) source parent_container w =
     add_container env builder spec v source parent_container w"
| "add_containers env builder spec (VList values) source parent_container w =
     add_containers_each env builder spec values source parent_container w"
| "add_containers env builder spec (VTuple values) source parent_container w =
     add_containers_each env builder spec values source parent_container w"
| "add_containers env builder spec (VDict kvs) source parent_container w =
     add_containers_each env builder spec (map snd kvs) source parent_container w"
| "add_containers env builder spec _ source parent_container w =
     Inl (ValueError ''received a value that is no Container, list, tuple or dict'')"
| "add_containers_each env builder spec [] source parent_container w = Inr w"
| "add_containers_each env builder spec (container # rest) source parent_container w =
     (case truthy container of
        Inl e \<Rightarrow> Inl e
      | Inr False \<Rightarrow> add_containers_each env builder spec rest source parent_container w
      | Inr True \<Rightarrow>
          (case add_containers env builder spec container source parent_container w of
             Inl e \<Rightarrow> Inl e
           | Inr w' \<Rightarrow> add_containers_each env builder spec rest source parent_container w'))"

subsection \<open>ObjectMapper: adding attributes\<close>








text \<open>
  \<^verbatim>\<open>__is_reftype\<close>. \<open>is_number\<close> is the test for an int, float, complex or bool (the
  numpy classes float64 and complex128 are subclasses of float and complex);
  \<open>sized_nonempty\<close> is the test for a value with a length greater than 0 that is no
  Container and no string. \<open>scan_elems\<close> is the inner loop: its result is \<^verbatim>\<open>tmptmp\<close>,
  which it sets to \<^verbatim>\<open>tmp[0]\<close> at the first such element unless a number comes first.
\<close>

fun is_number :: "pyval \<Rightarrow> bool" where
  "is_number (VBool b) = True"
| "is_number (VInt i) = True"
| "is_number (VFloat x) = True"
| "is_number (VNpScalar t v) = (t = Float64 \<or> t = Complex128)"
| "is_number _ = False"

fun sized_nonempty :: "pyval \<Rightarrow> bool" where
  "sized_nonempty (VList xs) = (xs \<noteq> [])"
| "sized_nonempty (VTuple xs) = (xs \<noteq> [])"
| "sized_nonempty (VDict kvs) = (kvs \<noteq> [])"
| "sized_nonempty (VNdarray d xs) = (xs \<noteq> [])"
| "sized_nonempty _ = False"

fun scan_elems :: "pyval \<Rightarrow> pyval list \<Rightarrow> pyval" where
  "scan_elems tmp0 [] = VNone"
| "scan_elems tmp0 (t # ts) =
     (if is_number t then VNone
      else if sized_nonempty t then tmp0
      else scan_elems tmp0 ts)"

text \<open>
  One round of the outer loop on a sequence with the elements \<open>xs\<close>: the loop stops
  with the sequence itself (no Container) when \<^verbatim>\<open>tmptmp\<close> is set, and goes on with the
  first element otherwise, which an empty sequence does not have.
\<close>

fun is_reftype :: "pyval \<Rightarrow> error + bool"
and is_reftype_seq :: "pyval list \<Rightarrow> error + bool" where
  "is_reftype (VList xs) = is_reftype_seq xs"
| "is_reftype (VTuple xs) = is_reftype_seq xs"
| "is_reftype (VNdarray d xs) = is_reftype_seq xs"
| "is_reftype (VDict kvs) = Inl KeyError"
| "is_reftype (VContainer a) = Inr True"
| "is_reftype _ = Inr False"
| "is_reftype_seq [] = Inl IndexError"
| "is_reftype_seq (x # xs) =
     (if scan_elems x (x # xs) \<noteq> VNone then Inr False else is_reftype x)"





subsection \<open>ObjectMapper: attribute names of a specification\<close>

text \<open>
  The character classes of the two regular expressions in \<^verbatim>\<open>convert_dt_name\<close>, and
  \<^verbatim>\<open>str.lower\<close> on the ASCII letters (names of data types are ASCII identifiers).
\<close>

definition is_upper :: "char \<Rightarrow> bool" where
  "is_upper c \<longleftrightarrow> 65 \<le> (of_char c :: nat) \<and> (of_char c :: nat) \<le> 90"

definition is_lower :: "char \<Rightarrow> bool" where
  "is_lower c \<longleftrightarrow> 97 \<le> (of_char c :: nat) \<and> (of_char c :: nat) \<le> 122"

definition is_digit :: "char \<Rightarrow> bool" where
  "is_digit c \<longleftrightarrow> 48 \<le> (of_char c :: nat) \<and> (of_char c :: nat) \<le> 57"

definition lower :: "string \<Rightarrow> string" where
  "lower s = map (\<lambda>c. if is_upper c then char_of (of_char c + 32 :: nat) else c) s"

text \<open>
  \<^verbatim>\<open>re.sub('(.)([A-Z][a-z]+)', r'\1_\2', name)\<close>: scanning from the left, a character
  other than a newline that is followed by a capital and at least one small letter
  gets an underscore after it, and the scan goes on behind the small letters.
\<close>

function sub_capitalized :: "string \<Rightarrow> string" where
  "sub_capitalized (c # u # l # rest) =
     (if c \<noteq> CHR 0x0A \<and> is_upper u \<and> is_lower l
      then c # CHR ''_'' # u # takeWhile is_lower (l # rest)
             @ sub_capitalized (dropWhile is_lower (l # rest))
      else c # sub_capitalized (u # l # rest))"
| "sub_capitalized [c, u] = [c, u]"
| "sub_capitalized [c] = [c]"
| "sub_capitalized [] = []"
  by pat_completeness auto
termination
  by (relation "measure length") (auto simp: le_imp_less_Suc length_dropWhile_le less_SucI)

text \<open>
  \<^verbatim>\<open>re.sub('([a-z0-9])([A-Z])', r'\1_\2', s1)\<close>: a small letter or digit followed by
  a capital gets an underscore after it, and the scan goes on behind the capital.
\<close>

fun sub_camel :: "string \<Rightarrow> string" where
  "sub_camel (a # b # rest) =
     (if (is_lower a \<or> is_digit a) \<and> is_upper b
      then a # CHR ''_'' # b # sub_camel rest
      else a # sub_camel (b # rest))"
| "sub_camel [a] = [a]"
| "sub_camel [] = []"

text \<open>\<^verbatim>\<open>convert_dt_name\<close>; \<open>is_many\<close> is what the spec layer's \<^verbatim>\<open>is_many()\<close> returns.\<close>

definition convert_dt_name :: "spec \<Rightarrow> error + string" where
  "convert_dt_name spec =
     (case (case data_type_def spec of
              Some d \<Rightarrow> Inr d
            | None \<Rightarrow>
                (case data_type_inc spec of
                   Some i \<Rightarrow> Inr i
                 | None \<Rightarrow> Inl (ValueError ''found spec without name or data_type''))) of
        Inl e \<Rightarrow> Inl e
      | Inr n \<Rightarrow>
          (let s1 = sub_capitalized n; n' = lower (sub_camel s1) in
           if n' = [] then Inl IndexError
           else if last n' \<noteq> CHR ''s'' \<and> is_many spec then Inr (n' @ ''s'')
           else Inr n'))"

text \<open>
  An OrderedDict is a list of keys with their values in insertion order; assigning to
  a key it holds replaces the value in place.
\<close>

definition od_set :: "string \<Rightarrow> 'v \<Rightarrow> (string \<times> 'v) list \<Rightarrow> (string \<times> 'v) list" where
  "od_set k v d =
     (if k \<in> set (map fst d)
      then map (\<lambda>kv. if fst kv = k then (k, v) else kv) d
      else d @ [(k, v)])"

text \<open>\<^verbatim>\<open>sep.join(names)\<close> for names that are strings.\<close>

fun join_str :: "string \<Rightarrow> string list \<Rightarrow> string" where
  "join_str sep [] = []"
| "join_str sep [x] = x"
| "join_str sep (x # y # ys) = x @ sep @ join_str sep (y # ys)"

text \<open>
  The first lines of \<^verbatim>\<open>__get_fields\<close>: the name of the specification is pushed on the
  name stack, and the specification is entered in the dictionary under its name, or
  under the joined name stack when the name is taken.
\<close>

definition field_name :: "spec \<Rightarrow> error + string" where
  "field_name spec = (case name spec of Some n \<Rightarrow> Inr n | None \<Rightarrow> convert_dt_name spec)"

type_synonym fields_state = "string list \<times> (string \<times> spec) list"

definition enter_field :: "spec \<Rightarrow> fields_state \<Rightarrow> error + fields_state" where
  "enter_field spec st =
     (case field_name spec of
        Inl e \<Rightarrow> Inl e
      | Inr n \<Rightarrow>
          (let name_stack = fst st @ [n];
               all_names = snd st;
               key = (if n \<in> set (map fst all_names) then join_str ''_'' name_stack else n)
           in Inr (name_stack, od_set key spec all_names)))"

text \<open>\<^verbatim>\<open>name_stack.pop()\<close>.\<close>

definition pop :: "fields_state \<Rightarrow> error + fields_state" where
  "pop st = (case fst st of [] \<Rightarrow> Inl IndexError | _ \<Rightarrow> Inr (butlast (fst st), snd st))"

text \<open>
  \<^verbatim>\<open>__get_fields\<close>, with \<open>get_fields_each\<close> for its loops over sub-specifications.
  A BaseStorageSpec is a dataset or a group specification; one with a data type
  returns before the pop.
\<close>

fun get_fields :: "spec \<Rightarrow> fields_state \<Rightarrow> error + fields_state"
and get_fields_each :: "spec list \<Rightarrow> fields_state \<Rightarrow> error + fields_state" where
  "get_fields (Spec k n d i m dt r v dv sh dm attrs dsets grps lnks) st =
     (case enter_field (Spec k n d i m dt r v dv sh dm attrs dsets grps lnks) st of
        Inl e \<Rightarrow> Inl e
      | Inr st0 \<Rightarrow>
          if k = DatasetSpec \<or> k = GroupSpec then
            (if \<not> (d = None \<and> i = None) then Inr st0
             else
               (case get_fields_each attrs st0 of
                  Inl e \<Rightarrow> Inl e
                | Inr st1 \<Rightarrow>
                    if k = GroupSpec then
                      (case get_fields_each dsets st1 of
                         Inl e \<Rightarrow> Inl e
                       | Inr st2 \<Rightarrow>
                           (case get_fields_each grps st2 of
                              Inl e \<Rightarrow> Inl e
                            | Inr st3 \<Rightarrow>
                                (case get_fields_each lnks st3 of
                                   Inl e \<Rightarrow> Inl e
                                 | Inr st4 \<Rightarrow> pop st4)))
                    else pop st1))
          else pop st0)"
| "get_fields_each [] st = Inr st"
| "get_fields_each (subspec # rest) st =
     (case get_fields subspec st of
        Inl e \<Rightarrow> Inl e
      | Inr st' \<Rightarrow> get_fields_each rest st')"

text \<open>
  \<^verbatim>\<open>get_attr_names\<close>: every sub-specification of the given one starts with a new,
  empty name stack; the dictionary is shared.
\<close>

fun get_names_each :: "spec list \<Rightarrow> (string \<times> spec) list \<Rightarrow> error + (string \<times> spec) list" where
  "get_names_each [] names = Inr names"
| "get_names_each (subspec # rest) names =
     (case get_fields subspec ([], names) of
        Inl e \<Rightarrow> Inl e
      | Inr st \<Rightarrow> get_names_each rest (snd st))"

definition get_attr_names :: "spec \<Rightarrow> error + (string \<times> spec) list" where
  "get_attr_names spec =
     (case get_names_each (attributes spec) [] of
        Inl e \<Rightarrow> Inl e
      | Inr names1 \<Rightarrow>
          if kind spec = GroupSpec then
            (case get_names_each (groups spec) names1 of
               Inl e \<Rightarrow> Inl e
             | Inr names2 \<Rightarrow>
                 (case get_names_each (datasets spec) names2 of
                    Inl e \<Rightarrow> Inl e
                  | Inr names3 \<Rightarrow> get_names_each (links spec) names3))
          else Inr names1)"

text \<open>
  \<^verbatim>\<open>ObjectMapper.__init__\<close> with \<^verbatim>\<open>__map_spec\<close>: every name is mapped to its
  specification, as attribute and as constructor argument.
\<close>

definition ObjectMapper_init :: "string \<Rightarrow> spec \<Rightarrow> error + mapper" where
  "ObjectMapper_init cls spec =
     (case get_attr_names spec of
        Inl e \<Rightarrow> Inl e
      | Inr attr_names \<Rightarrow>
          Inr \<lparr>m_class = cls, m_spec = spec,
               m_tables = fold (\<lambda>kv. map_spec (fst kv) (snd kv)) attr_names empty_tables\<rparr>)"

subsection \<open>The order in which the specifications are visited\<close>








subsection \<open>Concrete inputs\<close>

text \<open>
  A small library for running the model on concrete inputs: a numpy scalar is kept as
  its class together with the value it was made from, a cast array keeps its elements,
  the codecs leave the characters unchanged, and the string constructors are defined
  on strings only.
\<close>

definition plain_lib :: pylib where
  "plain_lib =
     \<lparr>np_scalar = (\<lambda>t v. Inr (VNpScalar t v)),
      astype = (\<lambda>t v. case v of VNdarray d xs \<Rightarrow> Inr (VNdarray (np_dtype t) xs)
                               | _ \<Rightarrow> Inl (LibraryError ''astype'')),
      astype_flex = (\<lambda>c v. Inr v),
      decode_utf8 = Inr,
      encode_ascii = (\<lambda>t. t),
      text_type = (\<lambda>v. case v of VStr t \<Rightarrow> Inr (VStr t) | VBytes b \<Rightarrow> Inr (VStr b)
                            | _ \<Rightarrow> Inl (LibraryError ''str'')),
      binary_type = (\<lambda>v. case v of VBytes b \<Rightarrow> Inr (VBytes b)
                              | _ \<Rightarrow> Inl (TypeError ''cannot convert to bytes'')),
      isoformat = (\<lambda>v. Inl (TypeError ''isoformat requires a datetime object''))\<rparr>"

text \<open>The attribute specification \<^verbatim>\<open>count: uint64\<close>, and one of dtype \<^verbatim>\<open>int32\<close>.\<close>

definition count_spec :: spec where
  "count_spec =
     Spec AttributeSpec (Some ''count'') None None False (DtName ''uint64'') True
       VNone VNone None None [] [] [] []"

definition int32_spec :: spec where
  "int32_spec =
     Spec AttributeSpec (Some ''bar'') None None False (DtName ''int32'') True
       VNone VNone None None [] [] [] []"

text \<open>
  A registry with the single data type \<^verbatim>\<open>Foo\<close> of namespace \<^verbatim>\<open>core\<close>, whose
  specification is a group without attributes, datasets, groups and links.
\<close>

definition foo_spec :: spec where
  "foo_spec =
     Spec GroupSpec None (Some ''Foo'') None False DtNone True VNone VNone None None [] [] [] []"

definition foo_map :: type_map where
  "foo_map =
     \<lparr>data_types = [''Foo'' \<mapsto> (''core'', ''Foo'')],
      mapper_cls = Map.empty,
      default_mapper_cls = ''ObjectMapper'',
      type_key = ''neurodata_type'',
      get_spec = (\<lambda>ns dt. Inr foo_spec),
      mro = (\<lambda>c. [c, ''Container'', ''object'']),
      new_mapper = ObjectMapper_init\<rparr>"

definition empty_group :: "string \<Rightarrow> string option \<Rightarrow> builder" where
  "empty_group n src =
     \<lparr>b_class = GroupBuilder, b_name = n, b_source = src, b_dtype = RNone,
      b_attributes = Map.empty, b_datasets = Map.empty, b_groups = Map.empty,
      b_links = Map.empty\<rparr>"

text \<open>
  What the mapper's build does for such a specification: it builds on the builder it
  is given, or else creates an empty GroupBuilder named after the Container; \<open>a\<close> is
  the address of the new object.
\<close>

definition new_group_at :: "nat \<Rightarrow> mapper_build" where
  "new_group_at a attr_map container builder source w =
     (case builder of
        Some b \<Rightarrow> Inr (b, w)
      | None \<Rightarrow>
          Inr (a, w\<lparr>bldrs := (bldrs w)
                      (a := empty_group (case cname (conts w container) of
                                           Some n \<Rightarrow> n | None \<Rightarrow> []) source)\<rparr>))"

definition foo_build :: type_map_build where
  "foo_build = TypeMap_build foo_map (new_group_at 100) True"

text \<open>
  A store in which every Container is an unmodified \<^verbatim>\<open>Foo\<close> named \<^verbatim>\<open>f\<close> without
  parent and source, and nothing has been built; the state after Container 0 has been
  built from it with source \<^verbatim>\<open>a.nwb\<close>; and the store in which Container 0 already has
  that source.
\<close>

definition foo :: container where
  "foo = \<lparr>cclass = ''Foo'', cname = Some ''f'', cparent = NoParent, container_source = None,
          modified = False, type_attr = Some ''Foo'', cattrs = Map.empty\<rparr>"

definition world0 :: world where
  "world0 = \<lparr>conts = (\<lambda>a. foo), bldrs = (\<lambda>a. empty_group [] None), warnings = [],
             builders = Map.empty, containers = Map.empty, mappers = Map.empty\<rparr>"

definition world1 :: world where
  "world1 =
     \<lparr>conts = (\<lambda>a. foo)(0 := foo\<lparr>container_source := Some ''a.nwb''\<rparr>),
      bldrs = (\<lambda>a. empty_group [] None)
                (100 := (empty_group ''f'' (Some ''a.nwb''))
                   \<lparr>b_attributes := [''namespace'' \<mapsto> VStr ''core'',
                                      ''neurodata_type'' \<mapsto> VStr ''Foo'']\<rparr>),
      warnings = [],
      builders = [0 \<mapsto> 100],
      containers = [100 \<mapsto> 0],
      mappers = [''Foo'' \<mapsto> \<lparr>m_class = ''ObjectMapper'', m_spec = foo_spec,
                                 m_tables = empty_tables\<rparr>]\<rparr>"


text \<open>A Proxy with two candidates, both of which are Containers as above.\<close>

definition proxy_f :: proxy where
  "proxy_f = \<lparr>p_source = None, p_location = ''f'', p_namespace = Some ''core'',
               p_data_type = Some ''Foo'', p_candidates = [1, 2]\<rparr>"













section \<open>Properties\<close>

subsection \<open>Lookup by constructor argument\<close>

text \<open>
  Claim C9. For every name \<open>n\<close> and mapper \<open>m\<close>, \<^verbatim>\<open>get_carg_spec(n)\<close> returns what
  \<^verbatim>\<open>get_attr_spec(n)\<close> returns, because both read the attribute table; and
  \<^verbatim>\<open>map_const_arg\<close> does not change what they return. So a specification \<open>s\<close> that
  is mapped under \<open>n\<close> by \<^verbatim>\<open>map_const_arg\<close> only (it is not the attribute mapped
  under \<open>n\<close>) is not returned by \<^verbatim>\<open>get_carg_spec(n)\<close>, although the
  constructor-argument table holds it under \<open>n\<close>.
\<close>

theorem get_carg_spec_reads_attr_table:
  "get_carg_spec m n = get_attr_spec m n \<and>
   get_carg_spec (map_const_arg n s m) n = get_attr_spec m n \<and>
   (get_attr_spec m n \<noteq> Some s \<longrightarrow>
      get_carg_spec (map_const_arg n s m) n \<noteq> Some s \<and>
      carg2spec (map_const_arg n s m) n = Some s)"
  by (simp add: get_carg_spec_def get_attr_spec_def map_const_arg_def)

theorem get_carg_spec_reads_attr_table_witness:
  "get_attr_spec (empty_tables :: nat mapper_tables) ''rate'' \<noteq> Some 7 \<and>
   get_carg_spec (map_const_arg ''rate'' (7::nat) empty_tables) ''rate'' = None \<and>
   carg2spec (map_const_arg ''rate'' (7::nat) empty_tables) ''rate'' = Some 7 \<and>
   get_carg_spec (map_attr ''rate'' (7::nat) empty_tables) ''rate'' = Some 7"
proof -
  have a: "get_attr_spec (empty_tables :: nat mapper_tables) ''rate'' = None"
    by (simp add: get_attr_spec_def empty_tables_def)
  have b: "get_carg_spec (map_attr ''rate'' (7::nat) empty_tables) ''rate'' = Some 7"
    by (simp add: get_carg_spec_def map_attr_def)
  from get_carg_spec_reads_attr_table [of "empty_tables :: nat mapper_tables" "''rate''" 7] a b
  show ?thesis
    by simp
qed

subsection \<open>Dtype conversion\<close>

lemma in_table_not_numeric: "map_of dtypes n = Some c \<Longrightarrow> n \<noteq> ''numeric''"
  by (auto simp: dtypes_def)

text \<open>
  Claim C2, as the specification states it, fails on the code: against the dtype
  \<^verbatim>\<open>uint64\<close> the Python float \<^verbatim>\<open>5.0\<close> does not make \<^verbatim>\<open>convert_dtype\<close> fail. The
  dtype of a Python float is float64, whose 8 bytes do not exceed the 8 bytes of
  uint64, so \<^verbatim>\<open>__resolve_dtype\<close> returns uint64 before it compares the families,
  and the value is handed to \<^verbatim>\<open>np.uint64\<close>.
\<close>

theorem convert_float_to_uint64_succeeds:
  "convert_dtype plain_lib count_spec (VFloat 5) = Inr (VNpScalar UInt64 (VFloat 5), RType UInt64)"
  by (simp add: count_spec_def dtypes_def convert_scalar_def resolve_dtype_def plain_lib_def)

text \<open>
  Claim C2, amended. Against a specification of dtype \<^verbatim>\<open>uint64\<close>, a Python int is
  converted to what \<^verbatim>\<open>np.uint64\<close> returns on it and the reported dtype is uint64;
  a Python float is converted in the same way, with no dtype-mismatch error.
  \<^verbatim>\<open>__resolve_dtype\<close> raises its dtype-mismatch error exactly when the given dtype
  is wider than the specified one and the two names differ in their first three
  letters.
\<close>

theorem convert_scalar_to_uint64:
  assumes "dtype spec = DtName ''uint64''"
  shows "convert_dtype L spec (VInt i) =
           (case np_scalar L UInt64 (VInt i) of
              Inl e \<Rightarrow> Inl e | Inr r \<Rightarrow> Inr (r, RType UInt64)) \<and>
         convert_dtype L spec (VFloat x) =
           (case np_scalar L UInt64 (VFloat x) of
              Inl e \<Rightarrow> Inl e | Inr r \<Rightarrow> Inr (r, RType UInt64)) \<and>
         ((\<exists>e. resolve_dtype g t = Inl e) \<longleftrightarrow>
            itemsize (np_dtype t) < itemsize g \<and>
            take 3 (dt_name g) \<noteq> take 3 (dt_name (np_dtype t)))"
proof -
  have found: "check_dtype (dtype spec) = Found (NpType UInt64)"
    using assms by (simp add: dtypes_def)
  have int: "convert_dtype L spec (VInt i) =
      (case np_scalar L UInt64 (VInt i) of
         Inl e \<Rightarrow> Inl e | Inr r \<Rightarrow> Inr (r, RType UInt64))"
    by (simp add: found convert_scalar_def resolve_dtype_def)
  have float: "convert_dtype L spec (VFloat x) =
      (case np_scalar L UInt64 (VFloat x) of
         Inl e \<Rightarrow> Inl e | Inr r \<Rightarrow> Inr (r, RType UInt64))"
    by (simp add: found convert_scalar_def resolve_dtype_def)
  have fails: "(\<exists>e. resolve_dtype g t = Inl e) \<longleftrightarrow>
      itemsize (np_dtype t) < itemsize g \<and>
      take 3 (dt_name g) \<noteq> take 3 (dt_name (np_dtype t))"
    by (auto simp: resolve_dtype_def Let_def)
  from int float fails show ?thesis
    by blast
qed

theorem convert_scalar_to_uint64_witness:
  "dtype count_spec = DtName ''uint64'' \<and>
   convert_dtype plain_lib count_spec (VInt 5) = Inr (VNpScalar UInt64 (VInt 5), RType UInt64) \<and>
   (\<exists>e. resolve_dtype (np_dtype Complex128) UInt64 = Inl e)"
proof -
  have d: "dtype count_spec = DtName ''uint64''"
    by (simp add: count_spec_def)
  have wide: "itemsize (np_dtype UInt64) < itemsize (np_dtype Complex128) \<and>
      take 3 (dt_name (np_dtype Complex128)) \<noteq> take 3 (dt_name (np_dtype UInt64))"
    by simp
  from convert_scalar_to_uint64 [OF d, of plain_lib 5 0 "np_dtype Complex128" UInt64] wide d
  show ?thesis
    by (simp add: plain_lib_def)
qed

text \<open>
  Claim C10. For every specification whose dtype is a name of the class table,
  \<^verbatim>\<open>convert_dtype\<close> fails on an empty list and on an empty tuple: the loop body never
  runs, so \<^verbatim>\<open>tmp_dtype\<close> is unbound when the sequence branch reads it for the
  reported dtype.
\<close>

theorem convert_empty_sequence_fails:
  assumes "map_of dtypes n = Some c" and "dtype spec = DtName n"
  shows "convert_dtype L spec (VList []) = Inl (UnboundLocalError ''tmp_dtype'') \<and>
         convert_dtype L spec (VTuple []) = Inl (UnboundLocalError ''tmp_dtype'')"
  using assms in_table_not_numeric [OF assms(1)] by simp

theorem convert_empty_sequence_fails_witness:
  "map_of dtypes ''int32'' = Some (NpType Int32) \<and> dtype int32_spec = DtName ''int32'' \<and>
   convert_dtype plain_lib int32_spec (VList []) = Inl (UnboundLocalError ''tmp_dtype'') \<and>
   convert_dtype plain_lib int32_spec (VTuple []) = Inl (UnboundLocalError ''tmp_dtype'')"
proof -
  have a: "map_of dtypes ''int32'' = Some (NpType Int32)"
    by (simp add: dtypes_def)
  have b: "dtype int32_spec = DtName ''int32''"
    by (simp add: int32_spec_def)
  from convert_empty_sequence_fails [OF a b, of plain_lib] a b show ?thesis
    by simp
qed

subsection \<open>BuildManager.build\<close>

lemma foo_mapper:
  "ObjectMapper_init c foo_spec = Inr \<lparr>m_class = c, m_spec = foo_spec, m_tables = empty_tables\<rparr>"
  by (simp add: ObjectMapper_init_def get_attr_names_def foo_spec_def)

lemma first_build: "BuildManager_build foo_build 0 (Some ''a.nwb'') world0 = Inr (100, world1)"
  by (simp add: BuildManager_build_def foo_build_def TypeMap_build_def get_map_def foo_map_def
        foo_mapper new_group_at_def world0_def world1_def foo_def prebuilt_def set_attribute_def Let_def
        get_container_ns_dt_def py_str_def empty_group_def)





text \<open>
  Claim C4. Repeated calls of \<^verbatim>\<open>M.build(C)\<close> return the identical builder as long as
  \<^verbatim>\<open>C.modified\<close> stays false: if a build of \<open>c\<close> returns the builder at address \<open>b\<close>,
  and \<open>c\<close> is unmodified at that call and at the next one, then the next build of \<open>c\<close>
  returns the builder at the same address \<open>b\<close> (whatever source it is given) and
  leaves the state as it is.
\<close>

theorem build_returns_cached_builder:
  assumes "BuildManager_build tmb c source w = Inr (b, w')"
    and "\<not> modified (conts w c)" and "\<not> modified (conts w' c)"
  shows "BuildManager_build tmb c source' w' = Inr (b, w')"
  using assms
  by (auto simp: BuildManager_build_def prebuilt_def split: sum.splits if_splits option.splits)

theorem build_returns_cached_builder_witness:
  "BuildManager_build foo_build 0 (Some ''a.nwb'') world0 = Inr (100, world1) \<and>
   \<not> modified (conts world0 0) \<and> \<not> modified (conts world1 0) \<and>
   BuildManager_build foo_build 0 (Some ''a.nwb'') world1 = Inr (100, world1)"
proof -
  have m0: "\<not> modified (conts world0 0)"
    by (simp add: world0_def foo_def)
  have m1: "\<not> modified (conts world1 0)"
    by (simp add: world1_def foo_def)
  from build_returns_cached_builder [OF first_build m0 m1, of "Some ''a.nwb''"] first_build m0 m1
  show ?thesis by simp
qed

subsection \<open>TypeMap.build\<close>

text \<open>
  Claim C8. Every builder that \<^verbatim>\<open>TypeMap.build\<close> returns for a Container whose class
  is registered with namespace \<open>ns\<close> and data type \<open>dt\<close> carries the attribute
  \<^verbatim>\<open>namespace\<close> with value \<open>ns\<close> and the attribute named by the type key with value
  \<open>dt\<close>. The type key is the spec layer's name for the data type attribute, a name
  other than \<^verbatim>\<open>namespace\<close>. The class of the Container is read in the state after the
  mapper's build, where the code looks it up.
\<close>

theorem TypeMap_build_sets_namespace_and_type:
  assumes "TypeMap_build tm ObjectMapper_build manager_given c source builder w = Inr (b, w')"
    and "data_types tm (cclass (conts w' c)) = Some (ns, dt)"
    and "type_key tm \<noteq> ''namespace''"
  shows "b_attributes (bldrs w' b) ''namespace'' = Some (VStr ns) \<and>
         b_attributes (bldrs w' b) (type_key tm) = Some (VStr dt)"
  using assms
  by (auto simp: TypeMap_build_def Let_def set_attribute_def get_container_ns_dt_def py_str_def
      split: sum.splits prod.splits option.splits if_splits)

theorem TypeMap_build_sets_namespace_and_type_witness:
  "TypeMap_build foo_map (new_group_at 100) False 0 (Some ''a.nwb'') None world0
     = Inr (100, world1\<lparr>conts := conts world0, builders := Map.empty, containers := Map.empty\<rparr>) \<and>
   data_types foo_map (cclass (conts world0 0)) = Some (''core'', ''Foo'') \<and>
   type_key foo_map \<noteq> ''namespace'' \<and>
   b_attributes (bldrs world1 100) ''namespace'' = Some (VStr ''core'') \<and>
   b_attributes (bldrs world1 100) ''neurodata_type'' = Some (VStr ''Foo'')"
proof -
  let ?w = "world1\<lparr>conts := conts world0, builders := Map.empty, containers := Map.empty\<rparr>"
  have run: "TypeMap_build foo_map (new_group_at 100) False 0 (Some ''a.nwb'') None world0
      = Inr (100, ?w)"
    by (simp add: TypeMap_build_def get_map_def foo_map_def foo_mapper new_group_at_def world0_def
          world1_def foo_def set_attribute_def Let_def get_container_ns_dt_def py_str_def
          empty_group_def)
  have reg: "data_types foo_map (cclass (conts ?w 0)) = Some (''core'', ''Foo'')"
    by (simp add: foo_map_def world0_def foo_def)
  have key: "type_key foo_map \<noteq> ''namespace''"
    by (simp add: foo_map_def)
  from TypeMap_build_sets_namespace_and_type [OF run reg key] run reg key
  show ?thesis by (simp add: foo_map_def)
qed

subsection \<open>Proxy.resolve\<close>

lemma resolve_loop_find:
  assumes "\<forall>c \<in> set cs. \<exists>r. matches tm w P c = Some (Inr r)"
  shows "resolve_loop tm w P cs
           = Some (Inr (find (\<lambda>c. matches tm w P c = Some (Inr True)) cs))"
  using assms
proof (induction cs)
  case Nil
  then show ?case by simp
next
  case (Cons c cs)
  then obtain r where r: "matches tm w P c = Some (Inr r)" by auto
  show ?case using Cons r by (cases r) auto
qed

lemma foo_matches: "matches foo_map world0 proxy_f c = Some (Inr True)"
  by (simp add: matches_def get_proxy_container_def name_stack.simps world0_def foo_def
      proxy_f_def proxy_eq_def get_container_ns_dt_def foo_map_def)

text \<open>
  Claim C5, as the specification states it, fails on the code: when two candidates
  match the Proxy, \<^verbatim>\<open>resolve\<close> does not return none, it returns the candidate that
  was added first.
\<close>

theorem resolve_two_matches_returns_first:
  "resolve foo_map world0 proxy_f = Some (Inr (Some 1))"
proof -
  have c: "p_candidates proxy_f = [1, 2]"
    by (simp add: proxy_f_def)
  show ?thesis
    unfolding resolve_def c by (simp add: foo_matches)
qed

text \<open>
  Claim C5, amended. When the proxy of every candidate can be computed,
  \<^verbatim>\<open>P.resolve()\<close> returns the first candidate, in the order the candidates were added,
  whose source, location, namespace and data type equal those of \<open>P\<close>: the unique
  matching candidate when exactly one matches, the first of them when several match.
  It returns none exactly when no candidate matches.
\<close>

theorem resolve_returns_first_match:
  assumes "\<forall>c \<in> set (p_candidates P). \<exists>r. matches tm w P c = Some (Inr r)"
  shows "resolve tm w P
           = Some (Inr (find (\<lambda>c. matches tm w P c = Some (Inr True)) (p_candidates P))) \<and>
         (resolve tm w P = Some (Inr None)
            \<longleftrightarrow> (\<forall>c \<in> set (p_candidates P). matches tm w P c = Some (Inr False)))"
proof -
  have first: "resolve tm w P
      = Some (Inr (find (\<lambda>c. matches tm w P c = Some (Inr True)) (p_candidates P)))"
    unfolding resolve_def by (rule resolve_loop_find [OF assms])
  have "find (\<lambda>c. matches tm w P c = Some (Inr True)) (p_candidates P) = None
      \<longleftrightarrow> (\<forall>c \<in> set (p_candidates P). matches tm w P c = Some (Inr False))"
    (is "?L \<longleftrightarrow> ?R")
  proof
    assume none: ?L
    show ?R
    proof
      fix c
      assume c: "c \<in> set (p_candidates P)"
      with assms obtain r where r: "matches tm w P c = Some (Inr r)"
        by blast
      from none c have "matches tm w P c \<noteq> Some (Inr True)"
        by (simp add: find_None_iff)
      with r show "matches tm w P c = Some (Inr False)"
        by (cases r) auto
    qed
  next
    assume ?R
    then show ?L by (simp add: find_None_iff)
  qed
  with first show ?thesis by simp
qed

theorem resolve_returns_first_match_witness:
  "matches foo_map world0 proxy_f 1 = Some (Inr True) \<and>
   matches foo_map world0 proxy_f 2 = Some (Inr True) \<and>
   resolve foo_map world0 proxy_f
     = Some (Inr (find (\<lambda>c. matches foo_map world0 proxy_f c = Some (Inr True))
                   (p_candidates proxy_f))) \<and>
   find (\<lambda>c. matches foo_map world0 proxy_f c = Some (Inr True)) (p_candidates proxy_f) = Some 1"
proof -
  have h: "\<forall>c \<in> set (p_candidates proxy_f). \<exists>r. matches foo_map world0 proxy_f c = Some (Inr r)"
    by (auto simp: foo_matches)
  have f: "find (\<lambda>c. matches foo_map world0 proxy_f c = Some (Inr True)) (p_candidates proxy_f)
      = Some 1"
    by (simp add: foo_matches) (simp add: proxy_f_def)
  from resolve_returns_first_match [OF h] f foo_matches show ?thesis
    by blast
qed

subsection \<open>Embedding or linking a child Container\<close>







subsection \<open>Attributes without a value\<close>





subsection \<open>The names of the attributes of a specification\<close>






















end
